theory Spec2Isabelle
  imports Complex_Main "HOL-Library.AList" "HOL-Library.Monad_Syntax"
begin

section \<open>The data model of \<^verbatim>\<open>data.py\<close>\<close>

text \<open>
  The six frozen dataclasses of \<^verbatim>\<open>data.py\<close> are records; a field of type
  \<^verbatim>\<open>Optional[float]\<close> is an \<open>option\<close>. The program never computes with its
  floats: every one is a literal that is stored, copied and compared for equality. A
  float is therefore represented by the decimal value of its literal, a \<open>real\<close>; two
  literals with the same decimal value denote the same double, so an equality proved of
  the decimal values is an equality of the floats. The field \<^verbatim>\<open>output\<close> is
  written \<open>output'\<close>, since \<open>output\<close> is a keyword of the prover; its dictionary
  key below is the source's \<^verbatim>\<open>output\<close>.
\<close>

type_synonym pyfloat = real

record InputData =
  electricity_pct_total_input_mwh :: pyfloat
  heat_pct_total_input_mwh :: "pyfloat option"
  heat_loss_pct_total_input_mwh :: pyfloat
  water_for_electrolysis_kg_per_mwh_input :: pyfloat

record OutputData =
  hydrogen_output_pct_total_output_mwh :: pyfloat
  hydrogen_ch2_pct_total_output :: pyfloat
  hydrogen_for_district_heating_pct_points_of_heat_loss :: pyfloat
  oxygen_output_pct_total_output_mwh :: pyfloat
  oxygen_recovered_for_district_heating_pct_points_of_heat_loss :: pyfloat
  heat_output_pct_total_output_mwh :: pyfloat
  hydrogen_yield_kg_per_mwh_input_e :: pyfloat
  oxygen_yield_kg_per_mwh_input_e :: pyfloat

record EnergyTechnicalData =
  total_plant_size_mw_input_e :: pyfloat
  planned_outage_days_per_annum :: pyfloat
  technical_lifetime_years :: pyfloat
  input :: InputData
  output' :: OutputData

record FinancialData =
  specific_investment_eur_per_kw_total_input :: pyfloat
  specific_investment_eur_per_kg_per_hour_hydrogen_output :: pyfloat
  o_and_m_pct_of_specific_investment_per_year :: pyfloat

record TechnologySpecificData =
  current_density_a_per_cm2 :: pyfloat
  footprint_m2_per_mw_input_e :: pyfloat
  degradation_rate_pct_per_annum :: pyfloat
  frequency_of_stack_replacement_years :: pyfloat

record PlantConfiguration =
  name :: string
  energy_technical :: EnergyTechnicalData
  financial :: FinancialData
  technology_specific :: TechnologySpecificData

subsection \<open>The two data instances and the catalog\<close>

definition AEC_100MW_ENS_2025 :: PlantConfiguration where
  "AEC_100MW_ENS_2025 = \<lparr>
     name = ''AEC 100 MW (ENS, 2025)'',
     energy_technical = \<lparr>
       total_plant_size_mw_input_e = 100.0,
       planned_outage_days_per_annum = 20.0,
       technical_lifetime_years = 20.0,
       input = \<lparr>
         electricity_pct_total_input_mwh = 100.0,
         heat_pct_total_input_mwh = None,
         heat_loss_pct_total_input_mwh = 0.0,
         water_for_electrolysis_kg_per_mwh_input = 89.15\<rparr>,
       output' = \<lparr>
         hydrogen_output_pct_total_output_mwh = 58.7,
         hydrogen_ch2_pct_total_output = 32.3,
         hydrogen_for_district_heating_pct_points_of_heat_loss = 26.4,
         oxygen_output_pct_total_output_mwh = 40.9,
         oxygen_recovered_for_district_heating_pct_points_of_heat_loss = 0.0,
         heat_output_pct_total_output_mwh = 0.4,
         hydrogen_yield_kg_per_mwh_input_e = 20.00,
         oxygen_yield_kg_per_mwh_input_e = 141.79\<rparr>\<rparr>,
     financial = \<lparr>
       specific_investment_eur_per_kw_total_input = 1161.3,
       specific_investment_eur_per_kg_per_hour_hydrogen_output = 5585.15,
       o_and_m_pct_of_specific_investment_per_year = 15.0\<rparr>,
     technology_specific = \<lparr>
       current_density_a_per_cm2 = 0.5,
       footprint_m2_per_mw_input_e = 10000.0,
       degradation_rate_pct_per_annum = 0.125,
       frequency_of_stack_replacement_years = 10.0\<rparr>\<rparr>"

definition PEM_100MW_ENS_2025 :: PlantConfiguration where
  "PEM_100MW_ENS_2025 = \<lparr>
     name = ''PEM 100 MW (ENS, 2025)'',
     energy_technical = \<lparr>
       total_plant_size_mw_input_e = 100.0,
       planned_outage_days_per_annum = 20.0,
       technical_lifetime_years = 20.0,
       input = \<lparr>
         electricity_pct_total_input_mwh = 100.0,
         heat_pct_total_input_mwh = None,
         heat_loss_pct_total_input_mwh = 0.0,
         water_for_electrolysis_kg_per_mwh_input = 91.82\<rparr>,
       output' = \<lparr>
         hydrogen_output_pct_total_output_mwh = 73.3,
         hydrogen_ch2_pct_total_output = 25.0,
         hydrogen_for_district_heating_pct_points_of_heat_loss = 30.0,
         oxygen_output_pct_total_output_mwh = 25.7,
         oxygen_recovered_for_district_heating_pct_points_of_heat_loss = 0.0,
         heat_output_pct_total_output_mwh = 1.0,
         hydrogen_yield_kg_per_mwh_input_e = 20.95,
         oxygen_yield_kg_per_mwh_input_e = 148.53\<rparr>\<rparr>,
     financial = \<lparr>
       specific_investment_eur_per_kw_total_input = 1368.2,
       specific_investment_eur_per_kg_per_hour_hydrogen_output = 6876.8,
       o_and_m_pct_of_specific_investment_per_year = 15.0\<rparr>,
     technology_specific = \<lparr>
       current_density_a_per_cm2 = 2.0,
       footprint_m2_per_mw_input_e = 7000.0,
       degradation_rate_pct_per_annum = 0.125,
       frequency_of_stack_replacement_years = 6.0\<rparr>\<rparr>"

definition PLANT_CONFIGURATIONS :: "PlantConfiguration list" where
  "PLANT_CONFIGURATIONS = [AEC_100MW_ENS_2025, PEM_100MW_ENS_2025]"

section \<open>Python values and objects\<close>

text \<open>
  What \<^verbatim>\<open>as_dict_list\<close> returns is built from \<^verbatim>\<open>None\<close>, floats, strings,
  dictionaries and one list. A \<open>pyval\<close> is such a value seen from outside: what
  \<^verbatim>\<open>pprint\<close> shows and what \<^verbatim>\<open>==\<close> compares. A dictionary keeps its keys in
  insertion order, so it is an association list.
\<close>

datatype pyval =
    VNone
  | VFloat pyfloat
  | VStr string
  | VDict "(string \<times> pyval) list"
  | VList "pyval list"

text \<open>
  Dictionaries and lists are mutable objects with an identity. The object store is the
  list of all objects created so far, and an address is a position in it; creating an
  object appends it, so a new address is always fresh. \<^verbatim>\<open>None\<close>, floats and
  strings cannot be modified, so a reference to one of them is the value itself.
\<close>

datatype pyref =
    RNone
  | RFloat pyfloat
  | RStr string
  | RObj nat

datatype hobj =
    HDict "(string \<times> pyref) list"
  | HList "pyref list"

definition new_obj :: "hobj \<Rightarrow> hobj list \<Rightarrow> pyref \<times> hobj list" where
  "new_obj ob h = (RObj (length h), h @ [ob])"

text \<open>
  Building the value \<open>v\<close> in the store creates one new object for every dictionary and
  every list in \<open>v\<close>, and none for \<^verbatim>\<open>None\<close>, a float or a string. The parts
  are created before the whole; the order only decides which address names which of the
  new objects.
\<close>

fun alloc :: "pyval \<Rightarrow> hobj list \<Rightarrow> pyref \<times> hobj list"
  and alloc_values :: "pyval list \<Rightarrow> hobj list \<Rightarrow> pyref list \<times> hobj list"
  and alloc_items :: "(string \<times> pyval) list \<Rightarrow> hobj list \<Rightarrow> (string \<times> pyref) list \<times> hobj list"
where
  "alloc VNone h = (RNone, h)"
| "alloc (VFloat x) h = (RFloat x, h)"
| "alloc (VStr s) h = (RStr s, h)"
| "alloc (VDict kvs) h = (let (krs, h1) = alloc_items kvs h in new_obj (HDict krs) h1)"
| "alloc (VList vs) h = (let (rs, h1) = alloc_values vs h in new_obj (HList rs) h1)"
| "alloc_values [] h = ([], h)"
| "alloc_values (v # vs) h =
     (let (r, h1) = alloc v h; (rs, h2) = alloc_values vs h1 in (r # rs, h2))"
| "alloc_items [] h = ([], h)"
| "alloc_items ((k, v) # kvs) h =
     (let (r, h1) = alloc v h; (krs, h2) = alloc_items kvs h1 in ((k, r) # krs, h2))"

text \<open>
  Reading the value of a reference follows the references of the store, as
  \<^verbatim>\<open>==\<close> and \<^verbatim>\<open>pprint\<close> do. The first argument bounds the nesting that is
  followed; \<open>None\<close> is a nesting deeper than that (Python's recursion limit) or an
  address that holds no object.
\<close>

fun fetch :: "nat \<Rightarrow> hobj list \<Rightarrow> pyref \<Rightarrow> pyval option"
  and fetch_values :: "nat \<Rightarrow> hobj list \<Rightarrow> pyref list \<Rightarrow> pyval list option"
  and fetch_items :: "nat \<Rightarrow> hobj list \<Rightarrow> (string \<times> pyref) list \<Rightarrow> (string \<times> pyval) list option"
where
  "fetch 0 h r = None"
| "fetch (Suc n) h RNone = Some VNone"
| "fetch (Suc n) h (RFloat x) = Some (VFloat x)"
| "fetch (Suc n) h (RStr s) = Some (VStr s)"
| "fetch (Suc n) h (RObj a) =
     (if a < length h
      then (case h ! a of
              HDict krs \<Rightarrow> map_option VDict (fetch_items n h krs)
            | HList rs \<Rightarrow> map_option VList (fetch_values n h rs))
      else None)"
| "fetch_values n h [] = Some []"
| "fetch_values n h (r # rs) =
     (case fetch n h r of
        None \<Rightarrow> None
      | Some v \<Rightarrow> map_option ((#) v) (fetch_values n h rs))"
| "fetch_items n h [] = Some []"
| "fetch_items n h ((k, r) # krs) =
     (case fetch n h r of
        None \<Rightarrow> None
      | Some v \<Rightarrow> map_option ((#) (k, v)) (fetch_items n h krs))"

text \<open>
  The addresses of the objects that a reference leads to, the object itself and the
  objects nested in it, down to the given nesting.
\<close>

fun reach :: "nat \<Rightarrow> hobj list \<Rightarrow> pyref \<Rightarrow> nat list"
  and reach_values :: "nat \<Rightarrow> hobj list \<Rightarrow> pyref list \<Rightarrow> nat list"
where
  "reach 0 h r = []"
| "reach (Suc n) h RNone = []"
| "reach (Suc n) h (RFloat x) = []"
| "reach (Suc n) h (RStr s) = []"
| "reach (Suc n) h (RObj a) =
     (if a < length h
      then a # (case h ! a of
                  HDict krs \<Rightarrow> reach_values n h (map snd krs)
                | HList rs \<Rightarrow> reach_values n h rs)
      else [])"
| "reach_values n h [] = []"
| "reach_values n h (r # rs) = reach n h r @ reach_values n h rs"

text \<open>The nesting of a value: how far \<open>fetch\<close> has to follow references to read it.\<close>

fun depth :: "pyval \<Rightarrow> nat"
  and depth_values :: "pyval list \<Rightarrow> nat"
  and depth_items :: "(string \<times> pyval) list \<Rightarrow> nat"
where
  "depth VNone = 1"
| "depth (VFloat x) = 1"
| "depth (VStr s) = 1"
| "depth (VDict kvs) = Suc (depth_items kvs)"
| "depth (VList vs) = Suc (depth_values vs)"
| "depth_values [] = 0"
| "depth_values (v # vs) = max (depth v) (depth_values vs)"
| "depth_items [] = 0"
| "depth_items ((k, v) # kvs) = max (depth v) (depth_items kvs)"

section \<open>The presentation adapter\<close>

text \<open>
  \<^verbatim>\<open>dataclasses.asdict\<close> turns a dataclass instance into a new dictionary with one
  key per field, named as the field and in the order of declaration; a field that
  holds a dataclass instance is converted in the same way, and any other field value is
  copied. The functions below give the dictionary of each of the six classes as a value.
\<close>

definition asdict_optional_float :: "pyfloat option \<Rightarrow> pyval" where
  "asdict_optional_float x = (case x of None \<Rightarrow> VNone | Some y \<Rightarrow> VFloat y)"

definition asdict_InputData :: "InputData \<Rightarrow> pyval" where
  "asdict_InputData r = VDict [
     (''electricity_pct_total_input_mwh'', VFloat (electricity_pct_total_input_mwh r)),
     (''heat_pct_total_input_mwh'', asdict_optional_float (heat_pct_total_input_mwh r)),
     (''heat_loss_pct_total_input_mwh'', VFloat (heat_loss_pct_total_input_mwh r)),
     (''water_for_electrolysis_kg_per_mwh_input'',
        VFloat (water_for_electrolysis_kg_per_mwh_input r))]"

definition asdict_OutputData :: "OutputData \<Rightarrow> pyval" where
  "asdict_OutputData r = VDict [
     (''hydrogen_output_pct_total_output_mwh'', VFloat (hydrogen_output_pct_total_output_mwh r)),
     (''hydrogen_ch2_pct_total_output'', VFloat (hydrogen_ch2_pct_total_output r)),
     (''hydrogen_for_district_heating_pct_points_of_heat_loss'',
        VFloat (hydrogen_for_district_heating_pct_points_of_heat_loss r)),
     (''oxygen_output_pct_total_output_mwh'', VFloat (oxygen_output_pct_total_output_mwh r)),
     (''oxygen_recovered_for_district_heating_pct_points_of_heat_loss'',
        VFloat (oxygen_recovered_for_district_heating_pct_points_of_heat_loss r)),
     (''heat_output_pct_total_output_mwh'', VFloat (heat_output_pct_total_output_mwh r)),
     (''hydrogen_yield_kg_per_mwh_input_e'', VFloat (hydrogen_yield_kg_per_mwh_input_e r)),
     (''oxygen_yield_kg_per_mwh_input_e'', VFloat (oxygen_yield_kg_per_mwh_input_e r))]"

definition asdict_EnergyTechnicalData :: "EnergyTechnicalData \<Rightarrow> pyval" where
  "asdict_EnergyTechnicalData r = VDict [
     (''total_plant_size_mw_input_e'', VFloat (total_plant_size_mw_input_e r)),
     (''planned_outage_days_per_annum'', VFloat (planned_outage_days_per_annum r)),
     (''technical_lifetime_years'', VFloat (technical_lifetime_years r)),
     (''input'', asdict_InputData (input r)),
     (''output'', asdict_OutputData (output' r))]"

definition asdict_FinancialData :: "FinancialData \<Rightarrow> pyval" where
  "asdict_FinancialData r = VDict [
     (''specific_investment_eur_per_kw_total_input'',
        VFloat (specific_investment_eur_per_kw_total_input r)),
     (''specific_investment_eur_per_kg_per_hour_hydrogen_output'',
        VFloat (specific_investment_eur_per_kg_per_hour_hydrogen_output r)),
     (''o_and_m_pct_of_specific_investment_per_year'',
        VFloat (o_and_m_pct_of_specific_investment_per_year r))]"

definition asdict_TechnologySpecificData :: "TechnologySpecificData \<Rightarrow> pyval" where
  "asdict_TechnologySpecificData r = VDict [
     (''current_density_a_per_cm2'', VFloat (current_density_a_per_cm2 r)),
     (''footprint_m2_per_mw_input_e'', VFloat (footprint_m2_per_mw_input_e r)),
     (''degradation_rate_pct_per_annum'', VFloat (degradation_rate_pct_per_annum r)),
     (''frequency_of_stack_replacement_years'',
        VFloat (frequency_of_stack_replacement_years r))]"

definition asdict_PlantConfiguration :: "PlantConfiguration \<Rightarrow> pyval" where
  "asdict_PlantConfiguration r = VDict [
     (''name'', VStr (name r)),
     (''energy_technical'', asdict_EnergyTechnicalData (energy_technical r)),
     (''financial'', asdict_FinancialData (financial r)),
     (''technology_specific'', asdict_TechnologySpecificData (technology_specific r))]"

text \<open>
  The state of the program: the module global \<^verbatim>\<open>PLANT_CONFIGURATIONS\<close>, a list of
  frozen records, and the store of dictionaries and lists. \<open>module_loaded h\<close> is the
  state once \<^verbatim>\<open>data.py\<close> has been executed, in a process whose other code has
  created the objects \<open>h\<close>.
\<close>

record pystate =
  catalog :: "PlantConfiguration list"
  objects :: "hobj list"

definition module_loaded :: "hobj list \<Rightarrow> pystate" where
  "module_loaded h = \<lparr>catalog = PLANT_CONFIGURATIONS, objects = h\<rparr>"

text \<open>
  \<^verbatim>\<open>as_dict_list\<close> reads the global and evaluates the list comprehension
  \<^verbatim>\<open>[asdict(config) for config in PLANT_CONFIGURATIONS]\<close>. A comprehension
  builds a new list, and \<^verbatim>\<open>asdict\<close> builds a new dictionary for every dataclass
  instance it meets and never hands out an existing one; the floats, strings and
  \<^verbatim>\<open>None\<close> in the fields are put into the dictionaries as they are. The function
  returns the reference to the list and the state it leaves.
\<close>

definition as_dict_list :: "pystate \<Rightarrow> pyref \<times> pystate" where
  "as_dict_list s =
     (let (r, h) = alloc (VList (map asdict_PlantConfiguration (catalog s))) (objects s)
      in (r, s\<lparr>objects := h\<rparr>))"

text \<open>
  The programmatic interface has two read accessors: reading the global
  \<^verbatim>\<open>PLANT_CONFIGURATIONS\<close> and calling \<^verbatim>\<open>as_dict_list()\<close>. \<open>run\<close> is
  the state after a sequence of uses of the two, in any order.
\<close>

datatype call = Read_PLANT_CONFIGURATIONS | Call_as_dict_list

fun run :: "call list \<Rightarrow> pystate \<Rightarrow> pystate" where
  "run [] s = s"
| "run (Read_PLANT_CONFIGURATIONS # cs) s = run cs s"
| "run (Call_as_dict_list # cs) s = run cs (snd (as_dict_list s))"

text \<open>
  The value of what a call returned, read in the state the call left, and the program
  fragment \<^verbatim>\<open>a = as_dict_list(); b = as_dict_list()\<close>.
\<close>

definition result_value :: "nat \<Rightarrow> pyref \<times> pystate \<Rightarrow> pyval option" where
  "result_value n res = fetch n (objects (snd res)) (fst res)"

record two_calls =
  first_result :: pyref
  second_result :: pyref
  final :: pystate

definition as_dict_list_twice :: "pystate \<Rightarrow> two_calls" where
  "as_dict_list_twice s =
     (let (a, s1) = as_dict_list s; (b, s2) = as_dict_list s1
      in \<lparr>first_result = a, second_result = b, final = s2\<rparr>)"

text \<open>
  A modification in place of one dictionary or list (\<^verbatim>\<open>d[k] = v\<close>,
  \<^verbatim>\<open>del d[k]\<close>, \<^verbatim>\<open>d.clear()\<close>, \<^verbatim>\<open>l.append(x)\<close>): the object at the
  address gets a new content, and nothing else changes.
\<close>

definition modify :: "pystate \<Rightarrow> nat \<Rightarrow> hobj \<Rightarrow> pystate" where
  "modify s a ob = s\<lparr>objects := (objects s)[a := ob]\<rparr>"

section \<open>Frozen records\<close>

text \<open>
  What the decorator \<^verbatim>\<open>@dataclass(frozen=True)\<close> is given, for each of the six
  classes: the name, the declared fields in their order, and the \<^verbatim>\<open>frozen\<close> flag
  as the source writes it.
\<close>

record pyclass =
  class_name :: string
  class_fields :: "string list"
  class_frozen :: bool

definition InputData_class :: pyclass where
  "InputData_class = \<lparr>
     class_name = ''InputData'',
     class_fields = [''electricity_pct_total_input_mwh'', ''heat_pct_total_input_mwh'',
       ''heat_loss_pct_total_input_mwh'', ''water_for_electrolysis_kg_per_mwh_input''],
     class_frozen = True\<rparr>"

definition OutputData_class :: pyclass where
  "OutputData_class = \<lparr>
     class_name = ''OutputData'',
     class_fields = [''hydrogen_output_pct_total_output_mwh'', ''hydrogen_ch2_pct_total_output'',
       ''hydrogen_for_district_heating_pct_points_of_heat_loss'',
       ''oxygen_output_pct_total_output_mwh'',
       ''oxygen_recovered_for_district_heating_pct_points_of_heat_loss'',
       ''heat_output_pct_total_output_mwh'', ''hydrogen_yield_kg_per_mwh_input_e'',
       ''oxygen_yield_kg_per_mwh_input_e''],
     class_frozen = True\<rparr>"

definition EnergyTechnicalData_class :: pyclass where
  "EnergyTechnicalData_class = \<lparr>
     class_name = ''EnergyTechnicalData'',
     class_fields = [''total_plant_size_mw_input_e'', ''planned_outage_days_per_annum'',
       ''technical_lifetime_years'', ''input'', ''output''],
     class_frozen = True\<rparr>"

definition FinancialData_class :: pyclass where
  "FinancialData_class = \<lparr>
     class_name = ''FinancialData'',
     class_fields = [''specific_investment_eur_per_kw_total_input'',
       ''specific_investment_eur_per_kg_per_hour_hydrogen_output'',
       ''o_and_m_pct_of_specific_investment_per_year''],
     class_frozen = True\<rparr>"

definition TechnologySpecificData_class :: pyclass where
  "TechnologySpecificData_class = \<lparr>
     class_name = ''TechnologySpecificData'',
     class_fields = [''current_density_a_per_cm2'', ''footprint_m2_per_mw_input_e'',
       ''degradation_rate_pct_per_annum'', ''frequency_of_stack_replacement_years''],
     class_frozen = True\<rparr>"

definition PlantConfiguration_class :: pyclass where
  "PlantConfiguration_class = \<lparr>
     class_name = ''PlantConfiguration'',
     class_fields = [''name'', ''energy_technical'', ''financial'', ''technology_specific''],
     class_frozen = True\<rparr>"

text \<open>
  For assignment a record is an object: its class and its attributes, each field name
  with the value it holds (a nested record is shown by its mapping). The instance of a
  record has the attributes that \<^verbatim>\<open>asdict\<close> lists.
\<close>

record pyinstance =
  instance_class :: pyclass
  instance_dict :: "(string \<times> pyval) list"

definition instance_of :: "pyclass \<Rightarrow> pyval \<Rightarrow> pyinstance" where
  "instance_of c d =
     \<lparr>instance_class = c, instance_dict = (case d of VDict kvs \<Rightarrow> kvs | _ \<Rightarrow> [])\<rparr>"

definition InputData_instance :: "InputData \<Rightarrow> pyinstance" where
  "InputData_instance r = instance_of InputData_class (asdict_InputData r)"

definition OutputData_instance :: "OutputData \<Rightarrow> pyinstance" where
  "OutputData_instance r = instance_of OutputData_class (asdict_OutputData r)"

definition EnergyTechnicalData_instance :: "EnergyTechnicalData \<Rightarrow> pyinstance" where
  "EnergyTechnicalData_instance r =
     instance_of EnergyTechnicalData_class (asdict_EnergyTechnicalData r)"

definition FinancialData_instance :: "FinancialData \<Rightarrow> pyinstance" where
  "FinancialData_instance r = instance_of FinancialData_class (asdict_FinancialData r)"

definition TechnologySpecificData_instance :: "TechnologySpecificData \<Rightarrow> pyinstance" where
  "TechnologySpecificData_instance r =
     instance_of TechnologySpecificData_class (asdict_TechnologySpecificData r)"

definition PlantConfiguration_instance :: "PlantConfiguration \<Rightarrow> pyinstance" where
  "PlantConfiguration_instance r =
     instance_of PlantConfiguration_class (asdict_PlantConfiguration r)"

text \<open>
  The constructor that the decorator generates takes one argument per field, in the
  order of the fields, stores them and checks nothing else: it raises
  \<^verbatim>\<open>TypeError\<close> when the number of arguments is not the number of fields, and
  otherwise returns the new instance.

  \<^verbatim>\<open>object.__setattr__\<close> stores a value under an attribute name. For a class
  declared with \<^verbatim>\<open>frozen=True\<close> the decorator generates a \<^verbatim>\<open>__setattr__\<close>
  that raises \<^verbatim>\<open>FrozenInstanceError\<close>, naming the attribute, when the object is an
  instance of the class itself or the name is one of its fields, and calls
  \<^verbatim>\<open>object.__setattr__\<close> otherwise; for a class that is not frozen it generates
  none, and \<^verbatim>\<open>object.__setattr__\<close> is what an assignment calls. The statement
  \<^verbatim>\<open>obj.n = v\<close> calls the \<^verbatim>\<open>__setattr__\<close> of the class of \<open>obj\<close>; its
  result is the exception it raised, if any, and the object as it is afterwards.
  \<^verbatim>\<open>object.__setattr__(obj, n, v)\<close>, called directly, passes the generated check by.

  \<open>construct_then_assign\<close> is a client that constructs an instance and then assigns
  to an attribute of it; it reports which of the two steps failed.
\<close>

datatype error = FrozenInstanceError string | TypeError

definition dataclass_init :: "pyclass \<Rightarrow> pyval list \<Rightarrow> error + pyinstance" where
  "dataclass_init c vals =
     (if length vals = length (class_fields c)
      then Inr \<lparr>instance_class = c, instance_dict = zip (class_fields c) vals\<rparr>
      else Inl TypeError)"

definition object_setattr :: "pyinstance \<Rightarrow> string \<Rightarrow> pyval \<Rightarrow> pyinstance" where
  "object_setattr obj n v = obj\<lparr>instance_dict := AList.update n v (instance_dict obj)\<rparr>"

definition class_setattr :: "pyclass \<Rightarrow> pyinstance \<Rightarrow> string \<Rightarrow> pyval \<Rightarrow> error option \<times> pyinstance" where
  "class_setattr c obj n v =
     (if class_frozen c
      then (if instance_class obj = c \<or> n \<in> set (class_fields c)
            then (Some (FrozenInstanceError n), obj)
            else (None, object_setattr obj n v))
      else (None, object_setattr obj n v))"

definition setattr :: "pyinstance \<Rightarrow> string \<Rightarrow> pyval \<Rightarrow> error option \<times> pyinstance" where
  "setattr obj n v = class_setattr (instance_class obj) obj n v"

datatype step = Construction | Assignment

definition construct_then_assign ::
    "pyclass \<Rightarrow> pyval list \<Rightarrow> string \<Rightarrow> pyval \<Rightarrow> (step \<times> error) + pyinstance" where
  "construct_then_assign c vals n v =
     (case dataclass_init c vals of
        Inl e \<Rightarrow> Inl (Construction, e)
      | Inr obj \<Rightarrow>
          (case setattr obj n v of
             (Some e, obj') \<Rightarrow> Inl (Assignment, e)
           | (None, obj') \<Rightarrow> Inr obj'))"

section \<open>Reading a mapping back\<close>

text \<open>
  The consumer's side of the round trip: \<^verbatim>\<open>d[k]\<close> on a dictionary value (\<open>None\<close>
  is Python's KeyError, or TypeError on a value that is no dictionary), \<^verbatim>\<open>l[i]\<close>
  on a list value for an index counted from the front (\<open>None\<close> is IndexError),
  \<^verbatim>\<open>list(d.keys())\<close>, and the functions that rebuild a record from the entries of
  its mapping, one lookup per field. A lookup that finds a value of another kind than the
  field's fails.
\<close>

definition getitem :: "pyval \<Rightarrow> string \<Rightarrow> pyval option" where
  "getitem d k = (case d of VDict kvs \<Rightarrow> map_of kvs k | _ \<Rightarrow> None)"

definition getindex :: "pyval \<Rightarrow> nat \<Rightarrow> pyval option" where
  "getindex l i = (case l of VList vs \<Rightarrow> (if i < length vs then Some (vs ! i) else None) | _ \<Rightarrow> None)"

definition keys :: "pyval \<Rightarrow> string list option" where
  "keys d = (case d of VDict kvs \<Rightarrow> Some (map fst kvs) | _ \<Rightarrow> None)"

definition as_float :: "pyval \<Rightarrow> pyfloat option" where
  "as_float v = (case v of VFloat x \<Rightarrow> Some x | _ \<Rightarrow> None)"

definition as_optional_float :: "pyval \<Rightarrow> pyfloat option option" where
  "as_optional_float v = (case v of VNone \<Rightarrow> Some None | VFloat x \<Rightarrow> Some (Some x) | _ \<Rightarrow> None)"

definition as_str :: "pyval \<Rightarrow> string option" where
  "as_str v = (case v of VStr s \<Rightarrow> Some s | _ \<Rightarrow> None)"

definition read_InputData :: "pyval \<Rightarrow> InputData option" where
  "read_InputData d = do {
     a \<leftarrow> getitem d ''electricity_pct_total_input_mwh'' \<bind> as_float;
     b \<leftarrow> getitem d ''heat_pct_total_input_mwh'' \<bind> as_optional_float;
     c \<leftarrow> getitem d ''heat_loss_pct_total_input_mwh'' \<bind> as_float;
     e \<leftarrow> getitem d ''water_for_electrolysis_kg_per_mwh_input'' \<bind> as_float;
     Some \<lparr>electricity_pct_total_input_mwh = a, heat_pct_total_input_mwh = b,
            heat_loss_pct_total_input_mwh = c, water_for_electrolysis_kg_per_mwh_input = e\<rparr>
   }"

definition read_OutputData :: "pyval \<Rightarrow> OutputData option" where
  "read_OutputData d = do {
     a \<leftarrow> getitem d ''hydrogen_output_pct_total_output_mwh'' \<bind> as_float;
     b \<leftarrow> getitem d ''hydrogen_ch2_pct_total_output'' \<bind> as_float;
     c \<leftarrow> getitem d ''hydrogen_for_district_heating_pct_points_of_heat_loss'' \<bind> as_float;
     e \<leftarrow> getitem d ''oxygen_output_pct_total_output_mwh'' \<bind> as_float;
     f \<leftarrow> getitem d ''oxygen_recovered_for_district_heating_pct_points_of_heat_loss'' \<bind> as_float;
     g \<leftarrow> getitem d ''heat_output_pct_total_output_mwh'' \<bind> as_float;
     i \<leftarrow> getitem d ''hydrogen_yield_kg_per_mwh_input_e'' \<bind> as_float;
     j \<leftarrow> getitem d ''oxygen_yield_kg_per_mwh_input_e'' \<bind> as_float;
     Some \<lparr>hydrogen_output_pct_total_output_mwh = a, hydrogen_ch2_pct_total_output = b,
            hydrogen_for_district_heating_pct_points_of_heat_loss = c,
            oxygen_output_pct_total_output_mwh = e,
            oxygen_recovered_for_district_heating_pct_points_of_heat_loss = f,
            heat_output_pct_total_output_mwh = g, hydrogen_yield_kg_per_mwh_input_e = i,
            oxygen_yield_kg_per_mwh_input_e = j\<rparr>
   }"

definition read_EnergyTechnicalData :: "pyval \<Rightarrow> EnergyTechnicalData option" where
  "read_EnergyTechnicalData d = do {
     a \<leftarrow> getitem d ''total_plant_size_mw_input_e'' \<bind> as_float;
     b \<leftarrow> getitem d ''planned_outage_days_per_annum'' \<bind> as_float;
     c \<leftarrow> getitem d ''technical_lifetime_years'' \<bind> as_float;
     e \<leftarrow> getitem d ''input'' \<bind> read_InputData;
     f \<leftarrow> getitem d ''output'' \<bind> read_OutputData;
     Some \<lparr>total_plant_size_mw_input_e = a, planned_outage_days_per_annum = b,
            technical_lifetime_years = c, input = e, output' = f\<rparr>
   }"

definition read_FinancialData :: "pyval \<Rightarrow> FinancialData option" where
  "read_FinancialData d = do {
     a \<leftarrow> getitem d ''specific_investment_eur_per_kw_total_input'' \<bind> as_float;
     b \<leftarrow> getitem d ''specific_investment_eur_per_kg_per_hour_hydrogen_output'' \<bind> as_float;
     c \<leftarrow> getitem d ''o_and_m_pct_of_specific_investment_per_year'' \<bind> as_float;
     Some \<lparr>specific_investment_eur_per_kw_total_input = a,
            specific_investment_eur_per_kg_per_hour_hydrogen_output = b,
            o_and_m_pct_of_specific_investment_per_year = c\<rparr>
   }"

definition read_TechnologySpecificData :: "pyval \<Rightarrow> TechnologySpecificData option" where
  "read_TechnologySpecificData d = do {
     a \<leftarrow> getitem d ''current_density_a_per_cm2'' \<bind> as_float;
     b \<leftarrow> getitem d ''footprint_m2_per_mw_input_e'' \<bind> as_float;
     c \<leftarrow> getitem d ''degradation_rate_pct_per_annum'' \<bind> as_float;
     e \<leftarrow> getitem d ''frequency_of_stack_replacement_years'' \<bind> as_float;
     Some \<lparr>current_density_a_per_cm2 = a, footprint_m2_per_mw_input_e = b,
            degradation_rate_pct_per_annum = c, frequency_of_stack_replacement_years = e\<rparr>
   }"

definition read_PlantConfiguration :: "pyval \<Rightarrow> PlantConfiguration option" where
  "read_PlantConfiguration d = do {
     a \<leftarrow> getitem d ''name'' \<bind> as_str;
     b \<leftarrow> getitem d ''energy_technical'' \<bind> read_EnergyTechnicalData;
     c \<leftarrow> getitem d ''financial'' \<bind> read_FinancialData;
     e \<leftarrow> getitem d ''technology_specific'' \<bind> read_TechnologySpecificData;
     Some \<lparr>name = a, energy_technical = b, financial = c, technology_specific = e\<rparr>
   }"

section \<open>Properties of the object store\<close>

text \<open>
  Creating objects only appends to the store: every object that existed before is still
  there, unchanged and at its address.
\<close>

lemma alloc_extends:
  "\<exists>ext. snd (alloc v h) = h @ ext"
  "\<exists>ext. snd (alloc_values vs h) = h @ ext"
  "\<exists>ext. snd (alloc_items kvs h) = h @ ext"
proof (induction v h and vs h and kvs h rule: alloc_alloc_values_alloc_items.induct)
  case (7 v vs h)
  obtain e1 where e1: "snd (alloc v h) = h @ e1" using 7(1) by blast
  obtain e2 where e2: "snd (alloc_values vs (snd (alloc v h))) = snd (alloc v h) @ e2"
    using 7(2)[OF refl prod.collapse] by blast
  show ?case by (simp add: split_def e1 e2[unfolded e1])
next
  case (9 k v kvs h)
  obtain e1 where e1: "snd (alloc v h) = h @ e1" using 9(1) by blast
  obtain e2 where e2: "snd (alloc_items kvs (snd (alloc v h))) = snd (alloc v h) @ e2"
    using 9(2)[OF refl prod.collapse] by blast
  show ?case by (simp add: split_def e1 e2[unfolded e1])
qed (auto simp: split_def new_obj_def)

text \<open>A value that can be read is read the same once more objects exist.\<close>

lemma fetch_extend:
  "fetch n h r = Some v \<Longrightarrow> fetch n (h @ ext) r = Some v"
  "fetch_values n h rs = Some vs \<Longrightarrow> fetch_values n (h @ ext) rs = Some vs"
  "fetch_items n h krs = Some kvs \<Longrightarrow> fetch_items n (h @ ext) krs = Some kvs"
proof (induction n h r and n h rs and n h krs arbitrary: v and vs and kvs
    rule: fetch_fetch_values_fetch_items.induct)
  case (5 n h a)
  then show ?case
    by (auto simp: nth_append split: if_splits hobj.splits)
next
  case (7 n h r rs)
  then show ?case by (auto split: option.splits)
next
  case (9 n h k r krs)
  then show ?case by (auto split: option.splits)
qed auto

text \<open>Reading what has just been created gives the value that was asked for.\<close>

lemma fetch_alloc:
  "depth v \<le> n \<Longrightarrow> fetch n (snd (alloc v h)) (fst (alloc v h)) = Some v"
  "depth_values vs \<le> n \<Longrightarrow> fetch_values n (snd (alloc_values vs h)) (fst (alloc_values vs h)) = Some vs"
  "depth_items kvs \<le> n \<Longrightarrow> fetch_items n (snd (alloc_items kvs h)) (fst (alloc_items kvs h)) = Some kvs"
proof (induction v h and vs h and kvs h arbitrary: n and n and n
    rule: alloc_alloc_values_alloc_items.induct)
  case (1 h)
  then show ?case by (cases n) auto
next
  case (2 x h)
  then show ?case by (cases n) auto
next
  case (3 s h)
  then show ?case by (cases n) auto
next
  case (4 kvs h)
  then obtain m where m: "n = Suc m" "depth_items kvs \<le> m" by (cases n) auto
  have "fetch_items m (snd (alloc_items kvs h) @ [HDict (fst (alloc_items kvs h))])
          (fst (alloc_items kvs h)) = Some kvs"
    using 4(1)[OF m(2)] by (rule fetch_extend)
  then show ?case by (simp add: m split_def new_obj_def Let_def)
next
  case (5 vs h)
  then obtain m where m: "n = Suc m" "depth_values vs \<le> m" by (cases n) auto
  have "fetch_values m (snd (alloc_values vs h) @ [HList (fst (alloc_values vs h))])
          (fst (alloc_values vs h)) = Some vs"
    using 5(1)[OF m(2)] by (rule fetch_extend)
  then show ?case by (simp add: m split_def new_obj_def Let_def)
next
  case (6 h)
  then show ?case by simp
next
  case (7 v vs h)
  obtain e2 where e2: "snd (alloc_values vs (snd (alloc v h))) = snd (alloc v h) @ e2"
    using alloc_extends(2) by blast
  have d: "depth v \<le> n" "depth_values vs \<le> n" using 7(3) by auto
  have a: "fetch n (snd (alloc v h) @ e2) (fst (alloc v h)) = Some v"
    using 7(1)[OF d(1)] by (rule fetch_extend)
  have b: "fetch_values n (snd (alloc_values vs (snd (alloc v h))))
             (fst (alloc_values vs (snd (alloc v h)))) = Some vs"
    using 7(2)[OF refl prod.collapse d(2)] .
  show ?case using a b by (simp add: split_def e2 Let_def)
next
  case (8 h)
  then show ?case by simp
next
  case (9 k v kvs h)
  obtain e2 where e2: "snd (alloc_items kvs (snd (alloc v h))) = snd (alloc v h) @ e2"
    using alloc_extends(3) by blast
  have d: "depth v \<le> n" "depth_items kvs \<le> n" using 9(3) by auto
  have a: "fetch n (snd (alloc v h) @ e2) (fst (alloc v h)) = Some v"
    using 9(1)[OF d(1)] by (rule fetch_extend)
  have b: "fetch_items n (snd (alloc_items kvs (snd (alloc v h))))
             (fst (alloc_items kvs (snd (alloc v h)))) = Some kvs"
    using 9(2)[OF refl prod.collapse d(2)] .
  show ?case using a b by (simp add: split_def e2 Let_def)
qed


lemma alloc_length:
  "length h \<le> length (snd (alloc v h))"
  "length h \<le> length (snd (alloc_values vs h))"
  "length h \<le> length (snd (alloc_items kvs h))"
  using alloc_extends(1)[of v h] alloc_extends(2)[of vs h] alloc_extends(3)[of kvs h]
  by auto

text \<open>
  What has just been created leads only to objects created with it, whatever is created
  later.
\<close>

lemma reach_alloc:
  "set (reach n (snd (alloc v h) @ ext) (fst (alloc v h)))
     \<subseteq> {length h ..< length (snd (alloc v h))}"
  "set (reach_values n (snd (alloc_values vs h) @ ext) (fst (alloc_values vs h)))
     \<subseteq> {length h ..< length (snd (alloc_values vs h))}"
  "set (reach_values n (snd (alloc_items kvs h) @ ext) (map snd (fst (alloc_items kvs h))))
     \<subseteq> {length h ..< length (snd (alloc_items kvs h))}"
proof (induction v h and vs h and kvs h arbitrary: n ext and n ext and n ext
    rule: alloc_alloc_values_alloc_items.induct)
  case (1 h)
  then show ?case by (cases n) auto
next
  case (2 x h)
  then show ?case by (cases n) auto
next
  case (3 s h)
  then show ?case by (cases n) auto
next
  case (4 kvs h)
  show ?case
  proof (cases n)
    case 0
    then show ?thesis by simp
  next
    case (Suc m)
    have "set (reach_values m (snd (alloc_items kvs h) @ HDict (fst (alloc_items kvs h)) # ext)
            (map snd (fst (alloc_items kvs h))))
          \<subseteq> {length h ..< length (snd (alloc_items kvs h))}"
      by (rule 4)
    then show ?thesis
      using alloc_length(3)[of h kvs]
      by (auto simp: Suc split_def new_obj_def Let_def nth_append)
  qed
next
  case (5 vs h)
  show ?case
  proof (cases n)
    case 0
    then show ?thesis by simp
  next
    case (Suc m)
    have "set (reach_values m (snd (alloc_values vs h) @ HList (fst (alloc_values vs h)) # ext)
            (fst (alloc_values vs h)))
          \<subseteq> {length h ..< length (snd (alloc_values vs h))}"
      by (rule 5)
    then show ?thesis
      using alloc_length(2)[of h vs]
      by (auto simp: Suc split_def new_obj_def Let_def nth_append)
  qed
next
  case (6 h)
  then show ?case by simp
next
  case (7 v vs h)
  obtain e2 where e2: "snd (alloc_values vs (snd (alloc v h))) = snd (alloc v h) @ e2"
    using alloc_extends(2) by blast
  have a: "set (reach n (snd (alloc v h) @ e2 @ ext) (fst (alloc v h)))
             \<subseteq> {length h ..< length (snd (alloc v h))}"
    by (rule 7(1))
  have b: "set (reach_values n (snd (alloc_values vs (snd (alloc v h))) @ ext)
             (fst (alloc_values vs (snd (alloc v h)))))
             \<subseteq> {length (snd (alloc v h)) ..< length (snd (alloc_values vs (snd (alloc v h))))}"
    by (rule 7(2)[OF refl prod.collapse])
  have c: "length h \<le> length (snd (alloc v h))" by (rule alloc_length)
  have d: "length (snd (alloc v h)) \<le> length (snd (alloc_values vs (snd (alloc v h))))"
    by (rule alloc_length)
  have a': "set (reach n (snd (alloc_values vs (snd (alloc v h))) @ ext) (fst (alloc v h)))
             \<subseteq> {length h ..< length (snd (alloc v h))}"
    using a by (simp add: e2)
  show ?case using a' b c d by (auto simp: split_def Let_def)
next
  case (8 h)
  then show ?case by simp
next
  case (9 k v kvs h)
  obtain e2 where e2: "snd (alloc_items kvs (snd (alloc v h))) = snd (alloc v h) @ e2"
    using alloc_extends(3) by blast
  have a: "set (reach n (snd (alloc v h) @ e2 @ ext) (fst (alloc v h)))
             \<subseteq> {length h ..< length (snd (alloc v h))}"
    by (rule 9(1))
  have b: "set (reach_values n (snd (alloc_items kvs (snd (alloc v h))) @ ext)
             (map snd (fst (alloc_items kvs (snd (alloc v h))))))
             \<subseteq> {length (snd (alloc v h)) ..< length (snd (alloc_items kvs (snd (alloc v h))))}"
    by (rule 9(2)[OF refl prod.collapse])
  have c: "length h \<le> length (snd (alloc v h))" by (rule alloc_length)
  have d: "length (snd (alloc v h)) \<le> length (snd (alloc_items kvs (snd (alloc v h))))"
    by (rule alloc_length)
  have a': "set (reach n (snd (alloc_items kvs (snd (alloc v h))) @ ext) (fst (alloc v h)))
             \<subseteq> {length h ..< length (snd (alloc v h))}"
    using a by (simp add: e2)
  show ?case using a' b c d by (auto simp: split_def Let_def)
qed

text \<open>Replacing an object that a reference does not lead to leaves its value as it is.\<close>

lemma fetch_frame:
  "a \<notin> set (reach n h r) \<Longrightarrow> fetch n (h[a := ob]) r = fetch n h r"
  "a \<notin> set (reach_values n h rs) \<Longrightarrow> fetch_values n (h[a := ob]) rs = fetch_values n h rs"
  "a \<notin> set (reach_values n h (map snd krs)) \<Longrightarrow> fetch_items n (h[a := ob]) krs = fetch_items n h krs"
proof (induction n h r and n h rs and n h krs
    rule: fetch_fetch_values_fetch_items.induct)
  case (5 n h b)
  then show ?case by (auto split: hobj.splits)
next
  case (7 n h r rs)
  then show ?case by (auto split: option.splits)
next
  case (9 n h k r krs)
  then show ?case by (auto split: option.splits)
qed auto

section \<open>Properties of the adapter\<close>

lemma depth_asdict_PlantConfiguration: "depth (asdict_PlantConfiguration c) = 4"
  by (simp add: asdict_PlantConfiguration_def asdict_EnergyTechnicalData_def
      asdict_FinancialData_def asdict_TechnologySpecificData_def asdict_InputData_def
      asdict_OutputData_def asdict_optional_float_def split: option.splits)

lemma depth_values_asdict: "depth_values (map asdict_PlantConfiguration cs) \<le> 4"
  by (induction cs) (simp_all add: depth_asdict_PlantConfiguration)

lemma as_dict_list_alloc:
  "as_dict_list s =
     (fst (alloc (VList (map asdict_PlantConfiguration (catalog s))) (objects s)),
      s\<lparr>objects := snd (alloc (VList (map asdict_PlantConfiguration (catalog s))) (objects s))\<rparr>)"
  unfolding as_dict_list_def Let_def split_def ..

lemma as_dict_list_catalog: "catalog (snd (as_dict_list s)) = catalog s"
  by (simp add: as_dict_list_alloc)

lemma as_dict_list_objects: "\<exists>ext. objects (snd (as_dict_list s)) = objects s @ ext"
  using alloc_extends(1)[of "VList (map asdict_PlantConfiguration (catalog s))" "objects s"]
  by (simp add: as_dict_list_alloc del: alloc.simps)

lemma as_dict_list_fetch:
  "fetch (5 + n) (objects (snd (as_dict_list s)) @ ext) (fst (as_dict_list s))
     = Some (VList (map asdict_PlantConfiguration (catalog s)))"
proof -
  have "depth (VList (map asdict_PlantConfiguration (catalog s))) \<le> 5 + n"
    using depth_values_asdict[of "catalog s"] by simp
  then have "fetch (5 + n) (snd (alloc (VList (map asdict_PlantConfiguration (catalog s))) (objects s)))
               (fst (alloc (VList (map asdict_PlantConfiguration (catalog s))) (objects s)))
             = Some (VList (map asdict_PlantConfiguration (catalog s)))"
    by (rule fetch_alloc)
  then show ?thesis
    by (simp add: as_dict_list_alloc fetch_extend del: alloc.simps)
qed

lemma as_dict_list_value:
  "result_value (5 + n) (as_dict_list s) = Some (VList (map asdict_PlantConfiguration (catalog s)))"
  using as_dict_list_fetch[of n s "[]"] by (simp add: result_value_def)

lemma as_dict_list_reach:
  "set (reach n (objects (snd (as_dict_list s)) @ ext) (fst (as_dict_list s)))
     \<subseteq> {length (objects s) ..< length (objects (snd (as_dict_list s)))}"
  using reach_alloc(1)[of n "VList (map asdict_PlantConfiguration (catalog s))" "objects s" ext]
  by (simp add: as_dict_list_alloc del: alloc.simps)

lemma run_catalog: "catalog (run cs s) = catalog s"
  by (induction cs s rule: run.induct) (simp_all add: as_dict_list_catalog)

lemma run_objects: "\<exists>ext. objects (run cs s) = objects s @ ext"
proof (induction cs s rule: run.induct)
  case (3 cs s)
  obtain e1 where e1: "objects (snd (as_dict_list s)) = objects s @ e1"
    using as_dict_list_objects by blast
  obtain e2 where "objects (run cs (snd (as_dict_list s))) = objects (snd (as_dict_list s)) @ e2"
    using 3 by blast
  then show ?case by (simp add: e1)
qed simp_all

text \<open>Rebuilding a record from its mapping gives the record back, whatever its fields hold.\<close>

lemma read_asdict_InputData: "read_InputData (asdict_InputData r) = Some r"
  by (simp add: read_InputData_def asdict_InputData_def getitem_def as_float_def
      as_optional_float_def asdict_optional_float_def split: option.splits)

lemma read_asdict_OutputData: "read_OutputData (asdict_OutputData r) = Some r"
  by (simp add: read_OutputData_def asdict_OutputData_def getitem_def as_float_def)

lemma read_asdict_EnergyTechnicalData:
  "read_EnergyTechnicalData (asdict_EnergyTechnicalData r) = Some r"
  by (simp add: read_EnergyTechnicalData_def asdict_EnergyTechnicalData_def getitem_def
      as_float_def read_asdict_InputData read_asdict_OutputData)

lemma read_asdict_FinancialData: "read_FinancialData (asdict_FinancialData r) = Some r"
  by (simp add: read_FinancialData_def asdict_FinancialData_def getitem_def as_float_def)

lemma read_asdict_TechnologySpecificData:
  "read_TechnologySpecificData (asdict_TechnologySpecificData r) = Some r"
  by (simp add: read_TechnologySpecificData_def asdict_TechnologySpecificData_def getitem_def
      as_float_def)

lemma read_asdict_PlantConfiguration:
  "read_PlantConfiguration (asdict_PlantConfiguration r) = Some r"
  by (simp add: read_PlantConfiguration_def asdict_PlantConfiguration_def getitem_def
      as_str_def read_asdict_EnergyTechnicalData read_asdict_FinancialData
      read_asdict_TechnologySpecificData)

text \<open>
  The entries of the returned list, the place of the heat percentage in a mapping, the
  keys of the mappings, and the objects that a call leaves alone.
\<close>

lemma getindex_asdict:
  "i < length cs \<Longrightarrow>
   getindex (VList (map asdict_PlantConfiguration cs)) i = Some (asdict_PlantConfiguration (cs ! i))"
  by (simp add: getindex_def)

lemma heat_entry:
  "(getitem (asdict_PlantConfiguration c) ''energy_technical''
      \<bind> (\<lambda>e. getitem e ''input'')
      \<bind> (\<lambda>x. getitem x ''heat_pct_total_input_mwh''))
   = Some (asdict_optional_float (heat_pct_total_input_mwh (input (energy_technical c))))"
  by (simp add: asdict_PlantConfiguration_def asdict_EnergyTechnicalData_def
      asdict_InputData_def getitem_def)

lemma catalog_heat_absent:
  "i < length PLANT_CONFIGURATIONS \<Longrightarrow>
   heat_pct_total_input_mwh (input (energy_technical (PLANT_CONFIGURATIONS ! i))) = None"
  by (simp add: PLANT_CONFIGURATIONS_def AEC_100MW_ENS_2025_def PEM_100MW_ENS_2025_def
      nth_Cons split: nat.splits)

lemma keys_asdict:
  "keys (asdict_PlantConfiguration c)
     = Some [''name'', ''energy_technical'', ''financial'', ''technology_specific'']"
  "(getitem (asdict_PlantConfiguration c) ''energy_technical'' \<bind> keys)
     = Some [''total_plant_size_mw_input_e'', ''planned_outage_days_per_annum'',
             ''technical_lifetime_years'', ''input'', ''output'']"
  "(getitem (asdict_PlantConfiguration c) ''energy_technical''
      \<bind> (\<lambda>e. getitem e ''input'') \<bind> keys)
     = Some [''electricity_pct_total_input_mwh'', ''heat_pct_total_input_mwh'',
             ''heat_loss_pct_total_input_mwh'', ''water_for_electrolysis_kg_per_mwh_input'']"
  "(getitem (asdict_PlantConfiguration c) ''energy_technical''
      \<bind> (\<lambda>e. getitem e ''output'') \<bind> keys)
     = Some [''hydrogen_output_pct_total_output_mwh'', ''hydrogen_ch2_pct_total_output'',
             ''hydrogen_for_district_heating_pct_points_of_heat_loss'',
             ''oxygen_output_pct_total_output_mwh'',
             ''oxygen_recovered_for_district_heating_pct_points_of_heat_loss'',
             ''heat_output_pct_total_output_mwh'', ''hydrogen_yield_kg_per_mwh_input_e'',
             ''oxygen_yield_kg_per_mwh_input_e'']"
  "(getitem (asdict_PlantConfiguration c) ''financial'' \<bind> keys)
     = Some [''specific_investment_eur_per_kw_total_input'',
             ''specific_investment_eur_per_kg_per_hour_hydrogen_output'',
             ''o_and_m_pct_of_specific_investment_per_year'']"
  "(getitem (asdict_PlantConfiguration c) ''technology_specific'' \<bind> keys)
     = Some [''current_density_a_per_cm2'', ''footprint_m2_per_mw_input_e'',
             ''degradation_rate_pct_per_annum'', ''frequency_of_stack_replacement_years'']"
  by (simp_all add: asdict_PlantConfiguration_def asdict_EnergyTechnicalData_def
      asdict_FinancialData_def asdict_TechnologySpecificData_def asdict_InputData_def
      asdict_OutputData_def getitem_def keys_def)

lemma as_dict_list_keeps_objects:
  "take (length (objects s)) (objects (snd (as_dict_list s))) = objects s"
proof -
  obtain ext where "objects (snd (as_dict_list s)) = objects s @ ext"
    using as_dict_list_objects by blast
  then show ?thesis by simp
qed

text \<open>
  The parts of two calls in sequence, and an object of the first of two calls made right
  after module load: the dictionary at address 2, the \<^verbatim>\<open>energy_technical\<close> mapping
  of the AEC entry.
\<close>

lemma twice_fields:
  "first_result (as_dict_list_twice s) = fst (as_dict_list s)"
  "second_result (as_dict_list_twice s) = fst (as_dict_list (snd (as_dict_list s)))"
  "final (as_dict_list_twice s) = snd (as_dict_list (snd (as_dict_list s)))"
  by (simp_all add: as_dict_list_twice_def split_def Let_def)

lemma first_call_reaches_nested_mapping:
  "2 \<in> set (reach 5 (objects (final (as_dict_list_twice (module_loaded []))))
            (first_result (as_dict_list_twice (module_loaded []))))"
  by code_simp

lemma first_result_shows_modification:
  "fetch 5 (objects (modify (final (as_dict_list_twice (module_loaded []))) 2 (HDict [])))
     (first_result (as_dict_list_twice (module_loaded [])))
   \<noteq> Some (VList (map asdict_PlantConfiguration PLANT_CONFIGURATIONS))"
  by code_simp

section \<open>The catalog\<close>

text \<open>
  Claim C1. The catalog holds exactly two entries, the AEC configuration first and the PEM
  configuration second, and neither the length nor the order changes: whatever the
  objects that existed when the module was loaded and whatever sequence of reads of the
  global and calls of \<^verbatim>\<open>as_dict_list\<close> has been made since, the global is that
  two-element list.
\<close>

theorem catalog_two_entries_in_fixed_order:
  "catalog (run cs (module_loaded h)) = [AEC_100MW_ENS_2025, PEM_100MW_ENS_2025]
   \<and> length (catalog (run cs (module_loaded h))) = 2
   \<and> catalog (run cs (module_loaded h)) ! 0 = AEC_100MW_ENS_2025
   \<and> catalog (run cs (module_loaded h)) ! 1 = PEM_100MW_ENS_2025"
  by (simp add: run_catalog module_loaded_def PLANT_CONFIGURATIONS_def)

text \<open>
  Claim C2. The first catalog entry has the name \<^verbatim>\<open>AEC 100 MW (ENS, 2025)\<close>, a plant
  size of 100.0, no heat percentage of the input (the field is \<^verbatim>\<open>None\<close>), a hydrogen
  yield of 20.00, a specific investment of 1161.3 per kW of input and a current density
  of 0.5.
\<close>

theorem aec_configuration_values:
  "name (PLANT_CONFIGURATIONS ! 0) = ''AEC 100 MW (ENS, 2025)''
   \<and> total_plant_size_mw_input_e (energy_technical (PLANT_CONFIGURATIONS ! 0)) = 100.0
   \<and> heat_pct_total_input_mwh (input (energy_technical (PLANT_CONFIGURATIONS ! 0))) = None
   \<and> hydrogen_yield_kg_per_mwh_input_e (output' (energy_technical (PLANT_CONFIGURATIONS ! 0))) = 20.00
   \<and> specific_investment_eur_per_kw_total_input (financial (PLANT_CONFIGURATIONS ! 0)) = 1161.3
   \<and> current_density_a_per_cm2 (technology_specific (PLANT_CONFIGURATIONS ! 0)) = 0.5"
  by (simp add: PLANT_CONFIGURATIONS_def AEC_100MW_ENS_2025_def)

text \<open>
  Claim C3. The second catalog entry has the name \<^verbatim>\<open>PEM 100 MW (ENS, 2025)\<close>, a
  hydrogen yield of 20.95, a specific investment of 6876.8 per kg/h of hydrogen output and
  a stack replacement every 6.0 years.
\<close>

theorem pem_configuration_values:
  "name (PLANT_CONFIGURATIONS ! 1) = ''PEM 100 MW (ENS, 2025)''
   \<and> hydrogen_yield_kg_per_mwh_input_e (output' (energy_technical (PLANT_CONFIGURATIONS ! 1))) = 20.95
   \<and> specific_investment_eur_per_kg_per_hour_hydrogen_output (financial (PLANT_CONFIGURATIONS ! 1)) = 6876.8
   \<and> frequency_of_stack_replacement_years (technology_specific (PLANT_CONFIGURATIONS ! 1)) = 6.0"
  by (simp add: PLANT_CONFIGURATIONS_def PEM_100MW_ENS_2025_def)

text \<open>
  Claim C9. In every configuration of the catalog the input energy is electricity alone:
  the electricity percentage is 100.0, the heat percentage is absent (\<^verbatim>\<open>None\<close>, and
  not the number zero) and the heat loss percentage is 0.0. The witness is the PEM
  configuration.
\<close>

theorem input_split_all_electricity:
  "\<forall>c \<in> set PLANT_CONFIGURATIONS.
     electricity_pct_total_input_mwh (input (energy_technical c)) = 100.0
     \<and> heat_pct_total_input_mwh (input (energy_technical c)) = None
     \<and> heat_pct_total_input_mwh (input (energy_technical c)) \<noteq> Some 0
     \<and> heat_loss_pct_total_input_mwh (input (energy_technical c)) = 0.0"
  by (simp add: PLANT_CONFIGURATIONS_def AEC_100MW_ENS_2025_def PEM_100MW_ENS_2025_def)

theorem input_split_all_electricity_witness:
  "PEM_100MW_ENS_2025 \<in> set PLANT_CONFIGURATIONS
   \<and> electricity_pct_total_input_mwh (input (energy_technical PEM_100MW_ENS_2025)) = 100.0
   \<and> heat_pct_total_input_mwh (input (energy_technical PEM_100MW_ENS_2025)) = None
   \<and> heat_loss_pct_total_input_mwh (input (energy_technical PEM_100MW_ENS_2025)) = 0.0"
proof -
  have m: "PEM_100MW_ENS_2025 \<in> set PLANT_CONFIGURATIONS"
    by (simp add: PLANT_CONFIGURATIONS_def)
  show ?thesis
    using m input_split_all_electricity[rule_format, OF m] by simp
qed

text \<open>
  Claim C10. The two catalog entries have the names \<^verbatim>\<open>AEC 100 MW (ENS, 2025)\<close> and
  \<^verbatim>\<open>PEM 100 MW (ENS, 2025)\<close>, which differ: selecting the entries of a name
  finds exactly one, and within the catalog two entries with the same name are the same
  entry.
\<close>

theorem names_identify_configurations:
  "name (PLANT_CONFIGURATIONS ! 0) = ''AEC 100 MW (ENS, 2025)''
   \<and> name (PLANT_CONFIGURATIONS ! 1) = ''PEM 100 MW (ENS, 2025)''
   \<and> name (PLANT_CONFIGURATIONS ! 0) \<noteq> name (PLANT_CONFIGURATIONS ! 1)
   \<and> distinct (map name PLANT_CONFIGURATIONS)
   \<and> filter (\<lambda>c. name c = ''AEC 100 MW (ENS, 2025)'') PLANT_CONFIGURATIONS
       = [AEC_100MW_ENS_2025]
   \<and> filter (\<lambda>c. name c = ''PEM 100 MW (ENS, 2025)'') PLANT_CONFIGURATIONS
       = [PEM_100MW_ENS_2025]
   \<and> (\<forall>c \<in> set PLANT_CONFIGURATIONS. \<forall>c' \<in> set PLANT_CONFIGURATIONS.
        name c = name c' \<longrightarrow> c = c')"
  by (simp add: PLANT_CONFIGURATIONS_def AEC_100MW_ENS_2025_def PEM_100MW_ENS_2025_def)

theorem names_identify_configurations_witness:
  "AEC_100MW_ENS_2025 \<in> set PLANT_CONFIGURATIONS
   \<and> PLANT_CONFIGURATIONS ! 0 \<in> set PLANT_CONFIGURATIONS
   \<and> name AEC_100MW_ENS_2025 = name (PLANT_CONFIGURATIONS ! 0)
   \<and> AEC_100MW_ENS_2025 = PLANT_CONFIGURATIONS ! 0"
proof -
  have a: "AEC_100MW_ENS_2025 \<in> set PLANT_CONFIGURATIONS"
    and b: "PLANT_CONFIGURATIONS ! 0 \<in> set PLANT_CONFIGURATIONS"
    by (simp_all add: PLANT_CONFIGURATIONS_def)
  have n: "name AEC_100MW_ENS_2025 = name (PLANT_CONFIGURATIONS ! 0)"
    using names_identify_configurations by (simp add: AEC_100MW_ENS_2025_def)
  have "AEC_100MW_ENS_2025 = PLANT_CONFIGURATIONS ! 0"
    using names_identify_configurations a b n by blast
  then show ?thesis using a b n by simp
qed

section \<open>The mappings returned by the adapter\<close>

text \<open>
  Claim C4. Round trip: in every state reached from module load, for every index of the
  catalog, the entry of the list returned by \<^verbatim>\<open>as_dict_list()\<close> at that index, read
  back field by field through the keys (those of the nested mappings included), is
  exactly the record at that index of the catalog; and the heat percentage is in the
  mapping, under its key, as \<^verbatim>\<open>None\<close>: neither left out nor turned into a number.
  The witness reads the PEM entry of the first call after module load.
\<close>

theorem as_dict_list_round_trip:
  assumes "i < length PLANT_CONFIGURATIONS"
  shows "(result_value (5 + n) (as_dict_list (run cs (module_loaded h)))
            \<bind> (\<lambda>l. getindex l i)
            \<bind> read_PlantConfiguration)
         = Some (PLANT_CONFIGURATIONS ! i)
       \<and> (result_value (5 + n) (as_dict_list (run cs (module_loaded h)))
            \<bind> (\<lambda>l. getindex l i)
            \<bind> (\<lambda>d. getitem d ''energy_technical'')
            \<bind> (\<lambda>e. getitem e ''input'')
            \<bind> (\<lambda>x. getitem x ''heat_pct_total_input_mwh''))
         = Some VNone"
proof -
  have c: "catalog (run cs (module_loaded h)) = PLANT_CONFIGURATIONS"
    by (simp add: run_catalog module_loaded_def)
  have v: "result_value (5 + n) (as_dict_list (run cs (module_loaded h)))
             = Some (VList (map asdict_PlantConfiguration PLANT_CONFIGURATIONS))"
    by (simp add: as_dict_list_value c)
  have g: "getindex (VList (map asdict_PlantConfiguration PLANT_CONFIGURATIONS)) i
             = Some (asdict_PlantConfiguration (PLANT_CONFIGURATIONS ! i))"
    using assms by (rule getindex_asdict)
  have "(Some (asdict_PlantConfiguration (PLANT_CONFIGURATIONS ! i))
            \<bind> (\<lambda>d. getitem d ''energy_technical'')
            \<bind> (\<lambda>e. getitem e ''input'')
            \<bind> (\<lambda>x. getitem x ''heat_pct_total_input_mwh'')) = Some VNone"
    using heat_entry[of "PLANT_CONFIGURATIONS ! i"] catalog_heat_absent[OF assms]
    by (simp add: asdict_optional_float_def)
  then show ?thesis
    by (simp add: v g read_asdict_PlantConfiguration)
qed

theorem as_dict_list_round_trip_witness:
  "(1::nat) < length PLANT_CONFIGURATIONS
   \<and> (result_value 5 (as_dict_list (module_loaded []))
        \<bind> (\<lambda>l. getindex l 1)
        \<bind> read_PlantConfiguration)
     = Some PEM_100MW_ENS_2025
   \<and> (result_value 5 (as_dict_list (module_loaded []))
        \<bind> (\<lambda>l. getindex l 1)
        \<bind> (\<lambda>d. getitem d ''energy_technical'')
        \<bind> (\<lambda>e. getitem e ''input'')
        \<bind> (\<lambda>x. getitem x ''heat_pct_total_input_mwh''))
     = Some VNone"
proof -
  have l: "(1::nat) < length PLANT_CONFIGURATIONS"
    by (simp add: PLANT_CONFIGURATIONS_def)
  have p: "PLANT_CONFIGURATIONS ! Suc 0 = PEM_100MW_ENS_2025"
    by (simp add: PLANT_CONFIGURATIONS_def)
  show ?thesis
    using l as_dict_list_round_trip[OF l, of 0 "[]" "[]"] by (simp add: p)
qed

text \<open>
  Claim C5. In any state, \<^verbatim>\<open>as_dict_list()\<close> returns a list whose value is the
  sequence of the mappings of the catalog's configurations, one for each and in the
  order of the catalog. The keys of the mapping of a configuration are the field names of
  \<^verbatim>\<open>PlantConfiguration\<close> in their order; under the key of a nested record lies a
  mapping whose keys are the field names of that record's class; and the values are those
  of the record, since reading the mapping back gives the record. The call leaves the
  catalog as it was and changes no object that existed before it.
\<close>

theorem as_dict_list_nested_mappings:
  "result_value (5 + n) (as_dict_list s) = Some (VList (map asdict_PlantConfiguration (catalog s)))
   \<and> length (map asdict_PlantConfiguration (catalog s)) = length (catalog s)
   \<and> keys (asdict_PlantConfiguration c)
       = Some [''name'', ''energy_technical'', ''financial'', ''technology_specific'']
   \<and> (getitem (asdict_PlantConfiguration c) ''energy_technical'' \<bind> keys)
       = Some [''total_plant_size_mw_input_e'', ''planned_outage_days_per_annum'',
               ''technical_lifetime_years'', ''input'', ''output'']
   \<and> (getitem (asdict_PlantConfiguration c) ''energy_technical''
        \<bind> (\<lambda>e. getitem e ''input'') \<bind> keys)
       = Some [''electricity_pct_total_input_mwh'', ''heat_pct_total_input_mwh'',
               ''heat_loss_pct_total_input_mwh'', ''water_for_electrolysis_kg_per_mwh_input'']
   \<and> (getitem (asdict_PlantConfiguration c) ''energy_technical''
        \<bind> (\<lambda>e. getitem e ''output'') \<bind> keys)
       = Some [''hydrogen_output_pct_total_output_mwh'', ''hydrogen_ch2_pct_total_output'',
               ''hydrogen_for_district_heating_pct_points_of_heat_loss'',
               ''oxygen_output_pct_total_output_mwh'',
               ''oxygen_recovered_for_district_heating_pct_points_of_heat_loss'',
               ''heat_output_pct_total_output_mwh'', ''hydrogen_yield_kg_per_mwh_input_e'',
               ''oxygen_yield_kg_per_mwh_input_e'']
   \<and> (getitem (asdict_PlantConfiguration c) ''financial'' \<bind> keys)
       = Some [''specific_investment_eur_per_kw_total_input'',
               ''specific_investment_eur_per_kg_per_hour_hydrogen_output'',
               ''o_and_m_pct_of_specific_investment_per_year'']
   \<and> (getitem (asdict_PlantConfiguration c) ''technology_specific'' \<bind> keys)
       = Some [''current_density_a_per_cm2'', ''footprint_m2_per_mw_input_e'',
               ''degradation_rate_pct_per_annum'', ''frequency_of_stack_replacement_years'']
   \<and> read_PlantConfiguration (asdict_PlantConfiguration c) = Some c
   \<and> catalog (snd (as_dict_list s)) = catalog s
   \<and> take (length (objects s)) (objects (snd (as_dict_list s))) = objects s"
  using keys_asdict[of c]
  by (simp only: as_dict_list_value read_asdict_PlantConfiguration as_dict_list_catalog
      as_dict_list_keeps_objects length_map simp_thms)

text \<open>
  Claim C8. Determinism: whatever the objects that existed at module load and whatever
  reads and calls came before, reading the global gives the same catalog and
  \<^verbatim>\<open>as_dict_list()\<close> returns a list of the same value; a call leaves the catalog
  and every object that existed before it unchanged.
\<close>

theorem accessors_deterministic:
  "catalog (run cs (module_loaded h)) = PLANT_CONFIGURATIONS
   \<and> catalog (run cs (module_loaded h)) = catalog (run cs' (module_loaded h'))
   \<and> result_value (5 + n) (as_dict_list (run cs (module_loaded h)))
       = Some (VList (map asdict_PlantConfiguration PLANT_CONFIGURATIONS))
   \<and> result_value (5 + n) (as_dict_list (run cs (module_loaded h)))
       = result_value (5 + m) (as_dict_list (run cs' (module_loaded h')))
   \<and> catalog (snd (as_dict_list (run cs (module_loaded h)))) = PLANT_CONFIGURATIONS
   \<and> take (length (objects (run cs (module_loaded h))))
         (objects (snd (as_dict_list (run cs (module_loaded h)))))
       = objects (run cs (module_loaded h))"
proof -
  have c: "catalog (run ds (module_loaded k)) = PLANT_CONFIGURATIONS" for ds k
    by (simp add: run_catalog module_loaded_def)
  have v: "result_value (5 + j) (as_dict_list (run ds (module_loaded k)))
             = Some (VList (map asdict_PlantConfiguration PLANT_CONFIGURATIONS))" for j ds k
    by (simp add: as_dict_list_value c)
  show ?thesis
    by (simp add: c v as_dict_list_catalog as_dict_list_keeps_objects)
qed

text \<open>
  Claim C6. Two calls of \<^verbatim>\<open>as_dict_list()\<close> in sequence, from any state, return lists
  of equal value, and no object belongs to both: the objects that the first list leads
  to and those that the second leads to are disjoint. So after any modification of an
  object of one result the other result still has its full value, and the catalog is
  what it was. The witness empties the \<^verbatim>\<open>energy_technical\<close> mapping of the AEC entry
  of the first result: the first result has changed, the second has not.
\<close>

theorem as_dict_list_twice_independent:
  "let t = as_dict_list_twice s; h = objects (final t) in
     fetch (5 + n) h (first_result t) = Some (VList (map asdict_PlantConfiguration (catalog s)))
     \<and> fetch (5 + n) h (first_result t) = fetch (5 + n) h (second_result t)
     \<and> set (reach m h (first_result t)) \<inter> set (reach k h (second_result t)) = {}
     \<and> (\<forall>a \<in> set (reach m h (first_result t)). \<forall>ob.
          fetch (5 + n) (objects (modify (final t) a ob)) (second_result t)
            = Some (VList (map asdict_PlantConfiguration (catalog s)))
          \<and> catalog (modify (final t) a ob) = catalog s)
     \<and> (\<forall>a \<in> set (reach k h (second_result t)). \<forall>ob.
          fetch (5 + n) (objects (modify (final t) a ob)) (first_result t)
            = Some (VList (map asdict_PlantConfiguration (catalog s)))
          \<and> catalog (modify (final t) a ob) = catalog s)"
proof -
  define s1 where "s1 = snd (as_dict_list s)"
  define s2 where "s2 = snd (as_dict_list s1)"
  define a1 where "a1 = fst (as_dict_list s)"
  define a2 where "a2 = fst (as_dict_list s1)"
  obtain e2 where e2: "objects s2 = objects s1 @ e2"
    unfolding s2_def using as_dict_list_objects by blast
  have c1: "catalog s1 = catalog s" by (simp add: s1_def as_dict_list_catalog)
  have c2: "catalog s2 = catalog s" by (simp add: s2_def as_dict_list_catalog c1)
  have v1: "fetch (5 + j) (objects s2) a1 = Some (VList (map asdict_PlantConfiguration (catalog s)))" for j
    unfolding e2 s1_def a1_def by (rule as_dict_list_fetch)
  have v2: "fetch (5 + j) (objects s2) a2 = Some (VList (map asdict_PlantConfiguration (catalog s)))" for j
    using as_dict_list_fetch[of j s1 "[]"] by (simp add: s2_def a2_def c1)
  have r1: "set (reach j (objects s2) a1) \<subseteq> {length (objects s) ..< length (objects s1)}" for j
    unfolding e2 s1_def a1_def by (rule as_dict_list_reach)
  have r2: "set (reach j (objects s2) a2) \<subseteq> {length (objects s1) ..< length (objects s2)}" for j
    using as_dict_list_reach[of j s1 "[]"] by (simp add: s2_def a2_def)
  have disj: "set (reach i (objects s2) a1) \<inter> set (reach j (objects s2) a2) = {}" for i j
    using r1[of i] r2[of j] by (fastforce simp: subset_iff)
  have f12: "fetch j (objects (modify s2 a ob)) a2 = fetch j (objects s2) a2"
    if "a \<in> set (reach i (objects s2) a1)" for i j a ob
  proof -
    have "a \<notin> set (reach j (objects s2) a2)" using that disj[of i j] by auto
    then show ?thesis by (simp add: modify_def fetch_frame)
  qed
  have f21: "fetch j (objects (modify s2 a ob)) a1 = fetch j (objects s2) a1"
    if "a \<in> set (reach i (objects s2) a2)" for i j a ob
  proof -
    have "a \<notin> set (reach j (objects s2) a1)" using that disj[of j i] by auto
    then show ?thesis by (simp add: modify_def fetch_frame)
  qed
  have cm: "catalog (modify s2 a ob) = catalog s" for a ob
    by (simp add: modify_def c2)
  have t: "first_result (as_dict_list_twice s) = a1"
    "second_result (as_dict_list_twice s) = a2"
    "final (as_dict_list_twice s) = s2"
    by (simp_all add: twice_fields a1_def a2_def s1_def s2_def)
  show ?thesis
    unfolding Let_def t
    using v1[of n] v2[of n] disj[of m k] f12[of _ m "5 + n"] f21[of _ k "5 + n"] cm by auto
qed

theorem as_dict_list_twice_independent_witness:
  "2 \<in> set (reach 5 (objects (final (as_dict_list_twice (module_loaded []))))
            (first_result (as_dict_list_twice (module_loaded []))))
   \<and> fetch 5 (objects (modify (final (as_dict_list_twice (module_loaded []))) 2 (HDict [])))
        (second_result (as_dict_list_twice (module_loaded [])))
     = Some (VList (map asdict_PlantConfiguration PLANT_CONFIGURATIONS))
   \<and> catalog (modify (final (as_dict_list_twice (module_loaded []))) 2 (HDict []))
     = PLANT_CONFIGURATIONS
   \<and> fetch 5 (objects (modify (final (as_dict_list_twice (module_loaded []))) 2 (HDict [])))
        (first_result (as_dict_list_twice (module_loaded [])))
     \<noteq> Some (VList (map asdict_PlantConfiguration PLANT_CONFIGURATIONS))"
proof -
  have c: "catalog (module_loaded []) = PLANT_CONFIGURATIONS"
    by (simp add: module_loaded_def)
  note t = as_dict_list_twice_independent[of "module_loaded []" 0 5 5, unfolded Let_def c]
  from t have "\<forall>a \<in> set (reach 5 (objects (final (as_dict_list_twice (module_loaded []))))
                    (first_result (as_dict_list_twice (module_loaded [])))). \<forall>ob.
      fetch (5 + 0) (objects (modify (final (as_dict_list_twice (module_loaded []))) a ob))
        (second_result (as_dict_list_twice (module_loaded [])))
        = Some (VList (map asdict_PlantConfiguration PLANT_CONFIGURATIONS))
      \<and> catalog (modify (final (as_dict_list_twice (module_loaded []))) a ob)
        = PLANT_CONFIGURATIONS"
    by blast
  with first_call_reaches_nested_mapping first_result_shows_modification show ?thesis
    by (simp del: fetch.simps)
qed

section \<open>Immutability of the records\<close>

lemmas class_defs = InputData_class_def OutputData_class_def EnergyTechnicalData_class_def
  FinancialData_class_def TechnologySpecificData_class_def PlantConfiguration_class_def

lemmas instance_defs = InputData_instance_def OutputData_instance_def
  EnergyTechnicalData_instance_def FinancialData_instance_def
  TechnologySpecificData_instance_def PlantConfiguration_instance_def

lemmas asdict_defs = asdict_InputData_def asdict_OutputData_def asdict_EnergyTechnicalData_def
  asdict_FinancialData_def asdict_TechnologySpecificData_def asdict_PlantConfiguration_def

text \<open>
  The instance of a record has the fields that its class declares, the class is the
  record's, and each of the six classes is frozen.
\<close>

lemma instance_fields:
  "map fst (instance_dict (InputData_instance a)) = class_fields InputData_class"
  "map fst (instance_dict (OutputData_instance b)) = class_fields OutputData_class"
  "map fst (instance_dict (EnergyTechnicalData_instance c)) = class_fields EnergyTechnicalData_class"
  "map fst (instance_dict (FinancialData_instance d)) = class_fields FinancialData_class"
  "map fst (instance_dict (TechnologySpecificData_instance e)) = class_fields TechnologySpecificData_class"
  "map fst (instance_dict (PlantConfiguration_instance p)) = class_fields PlantConfiguration_class"
  by (simp_all add: instance_defs instance_of_def asdict_defs class_defs)

lemma instance_classes:
  "instance_class (InputData_instance a) = InputData_class"
  "instance_class (OutputData_instance b) = OutputData_class"
  "instance_class (EnergyTechnicalData_instance c) = EnergyTechnicalData_class"
  "instance_class (FinancialData_instance d) = FinancialData_class"
  "instance_class (TechnologySpecificData_instance e) = TechnologySpecificData_class"
  "instance_class (PlantConfiguration_instance p) = PlantConfiguration_class"
  by (simp_all add: instance_defs instance_of_def)

lemma classes_frozen:
  "class_frozen InputData_class" "class_frozen OutputData_class"
  "class_frozen EnergyTechnicalData_class" "class_frozen FinancialData_class"
  "class_frozen TechnologySpecificData_class" "class_frozen PlantConfiguration_class"
  by (simp_all add: class_defs)

text \<open>
  Constructing an instance from the values of its fields gives that instance; an
  assignment to an instance of a frozen class raises and leaves it as it is, and to an
  instance of a class that is not frozen it stores the value.
\<close>

lemma dataclass_init_instance:
  "map fst (instance_dict obj) = class_fields (instance_class obj) \<Longrightarrow>
   dataclass_init (instance_class obj) (map snd (instance_dict obj)) = Inr obj"
proof -
  assume a: "map fst (instance_dict obj) = class_fields (instance_class obj)"
  have "length (map snd (instance_dict obj)) = length (class_fields (instance_class obj))"
    using a[symmetric] by simp
  moreover have "zip (class_fields (instance_class obj)) (map snd (instance_dict obj))
                   = instance_dict obj"
    using a[symmetric] by (simp add: zip_map_fst_snd)
  ultimately show ?thesis by (simp add: dataclass_init_def)
qed

lemma setattr_frozen:
  "class_frozen (instance_class obj) \<Longrightarrow> setattr obj n v = (Some (FrozenInstanceError n), obj)"
  by (simp add: setattr_def class_setattr_def)

lemma setattr_not_frozen:
  "\<not> class_frozen (instance_class obj) \<Longrightarrow> setattr obj n v = (None, object_setattr obj n v)"
  by (simp add: setattr_def class_setattr_def)

lemma object_setattr_stores:
  "map_of (instance_dict (object_setattr obj n v)) n = Some v"
  by (simp add: object_setattr_def update_conv')

lemma construct_then_assign_frozen:
  "map fst (instance_dict (obj :: pyinstance)) = class_fields (instance_class obj) \<Longrightarrow>
   class_frozen (instance_class obj) \<Longrightarrow>
   construct_then_assign (instance_class obj) (map snd (instance_dict obj)) n v
     = Inl (Assignment, FrozenInstanceError n)"
proof -
  assume f: "map fst (instance_dict obj) = class_fields (instance_class obj)"
    and z: "class_frozen (instance_class obj)"
  have i: "dataclass_init (instance_class obj) (map snd (instance_dict obj)) = Inr obj"
    using f by (rule dataclass_init_instance)
  have a: "setattr obj n v = (Some (FrozenInstanceError n), obj)"
    using z by (rule setattr_frozen)
  show ?thesis
    unfolding construct_then_assign_def i by (simp add: a)
qed

text \<open>
  The other two outcomes of the client: a constructor call without arguments fails at
  the construction, and with a class that is not frozen the assignment goes through.
\<close>

lemma construction_can_fail:
  "construct_then_assign PlantConfiguration_class [] n v = Inl (Construction, TypeError)"
  by (simp add: construct_then_assign_def dataclass_init_def PlantConfiguration_class_def)

lemma assignment_can_succeed:
  "construct_then_assign (c\<lparr>class_frozen := False\<rparr>) (map (\<lambda>_. VNone) (class_fields c)) n v
     = Inr (object_setattr \<lparr>instance_class = c\<lparr>class_frozen := False\<rparr>,
              instance_dict = zip (class_fields c) (map (\<lambda>_. VNone) (class_fields c))\<rparr> n v)"
  by (simp add: construct_then_assign_def dataclass_init_def setattr_def class_setattr_def)

text \<open>
  Claim C7, as stated: any attempt to assign to a field of a constructed record fails at
  construction (or compile) time, and no operation changes a field of a record after
  construction. It does not hold as stated. The AEC record is constructed without an
  error, and the assignment to its \<^verbatim>\<open>name\<close> is the step that fails, when it is
  executed; and \<^verbatim>\<open>object.__setattr__\<close>, called directly on the constructed record,
  does not fail and puts the new value in the place of the name.
\<close>

theorem assignment_does_not_fail_at_construction:
  "construct_then_assign PlantConfiguration_class
       (map snd (instance_dict (PlantConfiguration_instance AEC_100MW_ENS_2025)))
       ''name'' (VStr ''AEC'')
     = Inl (Assignment, FrozenInstanceError ''name'')
   \<and> \<not> (\<exists>err. construct_then_assign PlantConfiguration_class
                  (map snd (instance_dict (PlantConfiguration_instance AEC_100MW_ENS_2025)))
                  ''name'' (VStr ''AEC'')
                = Inl (Construction, err))
   \<and> map_of (instance_dict (PlantConfiguration_instance AEC_100MW_ENS_2025)) ''name''
       = Some (VStr ''AEC 100 MW (ENS, 2025)'')
   \<and> map_of (instance_dict
         (object_setattr (PlantConfiguration_instance AEC_100MW_ENS_2025) ''name'' (VStr ''AEC'')))
         ''name''
       = Some (VStr ''AEC'')"
proof -
  have "construct_then_assign PlantConfiguration_class
          (map snd (instance_dict (PlantConfiguration_instance AEC_100MW_ENS_2025)))
          ''name'' (VStr ''AEC'')
        = Inl (Assignment, FrozenInstanceError ''name'')"
    using construct_then_assign_frozen[of "PlantConfiguration_instance AEC_100MW_ENS_2025"]
    by (simp add: instance_fields instance_classes classes_frozen)
  moreover have "map_of (instance_dict (PlantConfiguration_instance AEC_100MW_ENS_2025)) ''name''
       = Some (VStr ''AEC 100 MW (ENS, 2025)'')"
    by (simp add: PlantConfiguration_instance_def instance_of_def asdict_PlantConfiguration_def
        AEC_100MW_ENS_2025_def)
  ultimately show ?thesis
    by (simp add: object_setattr_stores)
qed

text \<open>
  Claim C7, amended. For a record of each of the six classes, constructing it succeeds,
  and an assignment statement to an attribute of it, of any name and any value, fails
  when it is executed, with \<^verbatim>\<open>FrozenInstanceError\<close>, and leaves the record as it
  was. \<^verbatim>\<open>object.__setattr__\<close>, called directly, is not stopped: it stores the
  value. The operations of the repository change no record: a call of
  \<^verbatim>\<open>as_dict_list\<close>, and any sequence of reads of the global and such calls, leaves
  the catalog as it found it.
\<close>

theorem frozen_assignment_fails_when_executed:
  "dataclass_init InputData_class (map snd (instance_dict (InputData_instance a)))
     = Inr (InputData_instance a)
   \<and> setattr (InputData_instance a) n v = (Some (FrozenInstanceError n), InputData_instance a)
   \<and> dataclass_init OutputData_class (map snd (instance_dict (OutputData_instance b)))
     = Inr (OutputData_instance b)
   \<and> setattr (OutputData_instance b) n v = (Some (FrozenInstanceError n), OutputData_instance b)
   \<and> dataclass_init EnergyTechnicalData_class
       (map snd (instance_dict (EnergyTechnicalData_instance c)))
     = Inr (EnergyTechnicalData_instance c)
   \<and> setattr (EnergyTechnicalData_instance c) n v
     = (Some (FrozenInstanceError n), EnergyTechnicalData_instance c)
   \<and> dataclass_init FinancialData_class (map snd (instance_dict (FinancialData_instance d)))
     = Inr (FinancialData_instance d)
   \<and> setattr (FinancialData_instance d) n v
     = (Some (FrozenInstanceError n), FinancialData_instance d)
   \<and> dataclass_init TechnologySpecificData_class
       (map snd (instance_dict (TechnologySpecificData_instance e)))
     = Inr (TechnologySpecificData_instance e)
   \<and> setattr (TechnologySpecificData_instance e) n v
     = (Some (FrozenInstanceError n), TechnologySpecificData_instance e)
   \<and> dataclass_init PlantConfiguration_class
       (map snd (instance_dict (PlantConfiguration_instance p)))
     = Inr (PlantConfiguration_instance p)
   \<and> setattr (PlantConfiguration_instance p) n v
     = (Some (FrozenInstanceError n), PlantConfiguration_instance p)
   \<and> map_of (instance_dict (object_setattr obj n v)) n = Some v
   \<and> catalog (snd (as_dict_list s)) = catalog s
   \<and> catalog (run cs s) = catalog s"
proof -
  have i: "dataclass_init (instance_class obj') (map snd (instance_dict obj')) = Inr obj'"
    if "map fst (instance_dict obj') = class_fields (instance_class obj')" for obj'
    using that by (rule dataclass_init_instance)
  have s: "setattr obj' n v = (Some (FrozenInstanceError n), obj')"
    if "class_frozen (instance_class obj')" for obj'
    using that by (rule setattr_frozen)
  show ?thesis
    using i[of "InputData_instance a"] s[of "InputData_instance a"]
      i[of "OutputData_instance b"] s[of "OutputData_instance b"]
      i[of "EnergyTechnicalData_instance c"] s[of "EnergyTechnicalData_instance c"]
      i[of "FinancialData_instance d"] s[of "FinancialData_instance d"]
      i[of "TechnologySpecificData_instance e"] s[of "TechnologySpecificData_instance e"]
      i[of "PlantConfiguration_instance p"] s[of "PlantConfiguration_instance p"]
    by (simp add: instance_fields instance_classes classes_frozen object_setattr_stores
        as_dict_list_catalog run_catalog)
qed

end
